theory Spec2Isabelle
  imports Main "HOL-Library.Word" "HOL-Library.Multiset"
begin

section \<open>Data model of the NVMe controller front end\<close>

text \<open>
  The source is \<^verbatim>\<open>pkg/frontend/nvme_controller.go\<close>. Go's \<^verbatim>\<open>int32\<close> is a 32-bit word,
  Go's \<^verbatim>\<open>int\<close> a 64-bit word (the bridge runs on 64-bit targets). A Go pointer field that
  may be nil is an \<open>option\<close>; dereferencing \<open>None\<close> is the panic \<open>NilPointerPanic\<close>.
\<close>

type_synonym int32 = "32 word"
type_synonym go_int = "64 word"

text \<open>The conversion \<^verbatim>\<open>int32(x)\<close> of a Go \<^verbatim>\<open>int\<close>: the low 32 bits are kept.\<close>

definition int32_of_int :: "go_int \<Rightarrow> int32" where
  "int32_of_int x = ucast x"

text \<open>The conversion \<^verbatim>\<open>int(x)\<close> of a Go \<^verbatim>\<open>int32\<close>: sign extension.\<close>

definition int_of_int32 :: "int32 \<Rightarrow> go_int" where
  "int_of_int32 x = scast x"

text \<open>The gRPC status codes the file uses.\<close>

datatype codes = InvalidArgument | NotFound

text \<open>
  Errors as values: \<open>StatusError\<close> is \<^verbatim>\<open>status.Error\<close>/\<^verbatim>\<open>status.Errorf\<close>, \<open>Errorf\<close> is
  \<^verbatim>\<open>fmt.Errorf\<close> (a plain error without a status code), \<open>OtherError\<close> stands for an error
  value handed back by a collaborator (a validator or the RPC transport), and
  \<open>NilPointerPanic\<close> is the run-time panic of a nil dereference.
\<close>

datatype error =
    StatusError codes string
  | Errorf string
  | OtherError string
  | NilPointerPanic

subsection \<open>Protobuf messages (the fields the file reads or writes)\<close>

record PciEndpoint =
  PortId :: int32
  PhysicalFunction :: int32
  VirtualFunction :: int32

record ObjectKey =
  Value :: string

record NvmeControllerSpec =
  SubsystemId :: "ObjectKey option"
  PcieId :: "PciEndpoint option"
  NvmeControllerId :: int32
  MaxNsq :: int32
  MaxNcq :: int32
  Sqes :: int32

record NvmeControllerStatus =
  Active :: bool

record NvmeController =
  Name :: string
  Spec :: "NvmeControllerSpec option"
  Status :: "NvmeControllerStatus option"

record NvmeSubsystemSpec =
  Nqn :: string

record NvmeSubsystem =
  subsys_Spec :: "NvmeSubsystemSpec option"

record CreateNvmeControllerRequest =
  create_NvmeController :: "NvmeController option"
  create_NvmeControllerId :: string

record DeleteNvmeControllerRequest =
  delete_Name :: string
  delete_AllowMissing :: bool

record UpdateNvmeControllerRequest =
  update_NvmeController :: "NvmeController option"
  update_UpdateMask :: "string list option"
  update_AllowMissing :: bool

record ListNvmeControllersRequest =
  list_Parent :: string
  list_PageSize :: int32
  list_PageToken :: string

record GetNvmeControllerRequest =
  get_Name :: string

record NvmeControllerStatsRequest =
  stats_Id :: "ObjectKey option"

record ListNvmeControllersResponse =
  NvmeControllers :: "NvmeController list"
  NextPageToken :: string

record VolumeStats =
  ReadBytesCount :: int32
  ReadOpsCount :: int32
  WriteBytesCount :: int32
  WriteOpsCount :: int32
  ReadLatencyTicks :: int32
  WriteLatencyTicks :: int32

record NvmeControllerStatsResponse =
  Stats :: VolumeStats

subsection \<open>Backend parameter and result structs\<close>

text \<open>
  Modelled from the spec: the struct declarations of \<^verbatim>\<open>pkg/models\<close> are not part of the
  source file. The records below carry the fields that the controller code assigns or
  reads; every one is a Go \<^verbatim>\<open>int\<close> except the qualified name, and every result has the
  integer \<open>Status\<close> field, zero meaning success.
\<close>

record MrvlNvmSubsysCreateCtrlrParams =
  create_Subnqn :: string
  PcieDomainID :: go_int
  PfID :: go_int
  VfID :: go_int
  create_CtrlrID :: go_int
  MaxNsq_param :: go_int
  MaxNcq_param :: go_int
  Mqes :: go_int

record MrvlNvmSubsysCreateCtrlrResult =
  create_Status :: go_int
  create_result_CtrlrID :: go_int

record MrvlNvmSubsysRemoveCtrlrParams =
  remove_Subnqn :: string
  remove_CtrlrID :: go_int
  Force :: go_int

record MrvlNvmSubsysRemoveCtrlrResult =
  remove_Status :: go_int

record MrvlNvmSubsysGetCtrlrListParams =
  list_Subnqn :: string

record CtrlrIDListEntry =
  CtrlrID :: go_int

record MrvlNvmSubsysGetCtrlrListResult =
  list_Status :: go_int
  CtrlrIDList :: "CtrlrIDListEntry list"

record MrvlNvmGetCtrlrInfoParams =
  info_Subnqn :: string
  info_CtrlrID :: go_int

record MrvlNvmGetCtrlrInfoResult =
  info_Status :: go_int

record MrvlNvmGetCtrlrStatsParams =
  stats_Subnqn :: string
  stats_CtrlrID :: go_int

record MrvlNvmGetCtrlrStatsResult =
  stats_Status :: go_int
  NumReadBytes :: go_int
  NumReadCmds :: go_int
  NumWriteBytes :: go_int
  NumWriteCmds :: go_int
  TotalReadLatencyInUs :: go_int
  TotalWriteLatencyInUs :: go_int

text \<open>One backend invocation: the procedure name and the parameter struct passed.\<close>

datatype rpc_params =
    CreateCtrlrParams MrvlNvmSubsysCreateCtrlrParams
  | RemoveCtrlrParams MrvlNvmSubsysRemoveCtrlrParams
  | GetCtrlrListParams MrvlNvmSubsysGetCtrlrListParams
  | GetCtrlrInfoParams MrvlNvmGetCtrlrInfoParams
  | GetCtrlrStatsParams MrvlNvmGetCtrlrStatsParams

type_synonym rpc_call = "string \<times> rpc_params"

subsection \<open>Server state and collaborators\<close>

text \<open>
  The maps of the \<^verbatim>\<open>Server\<close> receiver that the file touches: the controller registry, the
  subsystem registry (read only) and the pagination cursor table.
\<close>

record Server =
  Controllers :: "string \<rightharpoonup> NvmeController"
  Subsystems :: "string \<rightharpoonup> NvmeSubsystem"
  Pagination :: "string \<rightharpoonup> go_int"

text \<open>
  The collaborators that live outside the file are parameters of the model: the required
  field, resource id, resource name and field mask validators (each returns an error or
  nothing), the two identifier generators (the value drawn in this call), the name
  builder, the pagination resolver, \<^verbatim>\<open>sort.Slice\<close>, and \<^verbatim>\<open>s.rpc.Call\<close> at each pair of
  parameter and result struct. A call returns the transport error or the decoded result.
\<close>

record Env =
  ValidateRequiredFields_Create :: "CreateNvmeControllerRequest \<Rightarrow> error option"
  ValidateRequiredFields_Delete :: "DeleteNvmeControllerRequest \<Rightarrow> error option"
  ValidateRequiredFields_Update :: "UpdateNvmeControllerRequest \<Rightarrow> error option"
  ValidateRequiredFields_List :: "ListNvmeControllersRequest \<Rightarrow> error option"
  ValidateRequiredFields_Get :: "GetNvmeControllerRequest \<Rightarrow> error option"
  ValidateRequiredFields_Stats :: "NvmeControllerStatsRequest \<Rightarrow> error option"
  ValidateUserSettable :: "string \<Rightarrow> error option"
  resourcename_Validate :: "string \<Rightarrow> error option"
  fieldmask_Validate :: "string list option \<Rightarrow> NvmeController \<Rightarrow> error option"
  NewSystemGenerated :: string
  ResourceIDToVolumeName :: "string \<Rightarrow> string"
  uuid_New :: string
  ExtractPagination :: "int32 \<Rightarrow> string \<Rightarrow> (string \<rightharpoonup> go_int) \<Rightarrow> error + (go_int \<times> go_int)"
  sort_Slice :: "(NvmeController \<Rightarrow> NvmeController \<Rightarrow> bool) \<Rightarrow> NvmeController list \<Rightarrow> NvmeController list"
  Call_CreateCtrlr :: "string \<Rightarrow> MrvlNvmSubsysCreateCtrlrParams \<Rightarrow> error + MrvlNvmSubsysCreateCtrlrResult"
  Call_RemoveCtrlr :: "string \<Rightarrow> MrvlNvmSubsysRemoveCtrlrParams \<Rightarrow> error + MrvlNvmSubsysRemoveCtrlrResult"
  Call_GetCtrlrList :: "string \<Rightarrow> MrvlNvmSubsysGetCtrlrListParams \<Rightarrow> error + MrvlNvmSubsysGetCtrlrListResult"
  Call_GetCtrlrInfo :: "string \<Rightarrow> MrvlNvmGetCtrlrInfoParams \<Rightarrow> error + MrvlNvmGetCtrlrInfoResult"
  Call_GetCtrlrStats :: "string \<Rightarrow> MrvlNvmGetCtrlrStatsParams \<Rightarrow> error + MrvlNvmGetCtrlrStatsResult"

text \<open>
  What an operation yields: the returned value or error, the server state afterwards, and
  the backend invocations it made, in order.
\<close>

type_synonym 'a outcome = "(error + 'a) \<times> Server \<times> rpc_call list"

section \<open>The operations\<close>

text \<open>
  The parameter literal of lines 74-83 and, verbatim again, of lines 188-197. Go evaluates
  the fields in order, so a nil subsystem spec or a nil \<^verbatim>\<open>PcieId\<close> panics.
\<close>

definition create_ctrlr_params ::
  "NvmeSubsystem \<Rightarrow> NvmeControllerSpec \<Rightarrow> error + MrvlNvmSubsysCreateCtrlrParams" where
  "create_ctrlr_params subsys spec =
     (case subsys_Spec subsys of
        None \<Rightarrow> Inl NilPointerPanic
      | Some ss \<Rightarrow>
          (case PcieId spec of
             None \<Rightarrow> Inl NilPointerPanic
           | Some pcie \<Rightarrow>
               Inr \<lparr> create_Subnqn = Nqn ss,
                     PcieDomainID = int_of_int32 (PortId pcie),
                     PfID = int_of_int32 (PhysicalFunction pcie),
                     VfID = int_of_int32 (VirtualFunction pcie),
                     create_CtrlrID = int_of_int32 (NvmeControllerId spec),
                     MaxNsq_param = int_of_int32 (MaxNsq spec),
                     MaxNcq_param = int_of_int32 (MaxNcq spec),
                     Mqes = int_of_int32 (Sqes spec) \<rparr>))"

text \<open>
  \<^verbatim>\<open>CreateNvmeController\<close>, lines 37-101. The assignment to \<^verbatim>\<open>in.NvmeController.Name\<close>
  changes the request only; the clone stored and returned carries that name. The text of
  a \<^verbatim>\<open>status.Errorf\<close> message built by \<^verbatim>\<open>Sprintf\<close> is given for a name free of format verbs.
\<close>

definition CreateNvmeController ::
  "Env \<Rightarrow> Server \<Rightarrow> CreateNvmeControllerRequest \<Rightarrow> NvmeController outcome" where
  "CreateNvmeController env s req =
     (case ValidateRequiredFields_Create env req of
        Some err \<Rightarrow> (Inl err, s, [])
      | None \<Rightarrow>
     (case create_NvmeController req of
        None \<Rightarrow> (Inl NilPointerPanic, s, [])
      | Some ctrl \<Rightarrow>
     (case Spec ctrl of
        None \<Rightarrow> (Inl (StatusError InvalidArgument ''invalid input subsystem parameters''), s, [])
      | Some spec \<Rightarrow>
     (case SubsystemId spec of
        None \<Rightarrow> (Inl (StatusError InvalidArgument ''invalid input subsystem parameters''), s, [])
      | Some key \<Rightarrow>
     if Value key = ''''
     then (Inl (StatusError InvalidArgument ''invalid input subsystem parameters''), s, [])
     else
     (case (if create_NvmeControllerId req \<noteq> ''''
            then (case ValidateUserSettable env (create_NvmeControllerId req) of
                    Some err \<Rightarrow> Inl err
                  | None \<Rightarrow> Inr (create_NvmeControllerId req))
            else Inr (NewSystemGenerated env)) of
        Inl err \<Rightarrow> (Inl err, s, [])
      | Inr resourceID \<Rightarrow>
     (let name = ResourceIDToVolumeName env resourceID in
      case Controllers s name of
        Some controller \<Rightarrow> (Inr controller, s, [])
      | None \<Rightarrow>
     (case Subsystems s (Value key) of
        None \<Rightarrow> (Inl (StatusError NotFound (''unable to find key '' @ Value key)), s, [])
      | Some subsys \<Rightarrow>
     (case create_ctrlr_params subsys spec of
        Inl panic \<Rightarrow> (Inl panic, s, [])
      | Inr params \<Rightarrow>
     (let call = (''mrvl_nvm_subsys_create_ctrlr'', CreateCtrlrParams params) in
      case Call_CreateCtrlr env ''mrvl_nvm_subsys_create_ctrlr'' params of
        Inl err \<Rightarrow> (Inl err, s, [call])
      | Inr result \<Rightarrow>
          if create_Status result \<noteq> 0
          then (Inl (StatusError InvalidArgument (''Could not create CTRL: '' @ name)), s, [call])
          else
            (let response = ctrl
                   \<lparr> Name := name,
                     Spec := Some (spec \<lparr> NvmeControllerId := int32_of_int (create_result_CtrlrID result) \<rparr>),
                     Status := Some \<lparr> Active = True \<rparr> \<rparr>
             in (Inr response, s \<lparr> Controllers := (Controllers s)(name \<mapsto> response) \<rparr>, [call])))))))))))"

text \<open>
  \<^verbatim>\<open>DeleteNvmeController\<close>, lines 104-150. The entry removed is the one keyed by the
  stored controller's own \<^verbatim>\<open>Name\<close>, as in the source.
\<close>

definition DeleteNvmeController ::
  "Env \<Rightarrow> Server \<Rightarrow> DeleteNvmeControllerRequest \<Rightarrow> unit outcome" where
  "DeleteNvmeController env s req =
     (case ValidateRequiredFields_Delete env req of
        Some err \<Rightarrow> (Inl err, s, [])
      | None \<Rightarrow>
     (case resourcename_Validate env (delete_Name req) of
        Some err \<Rightarrow> (Inl err, s, [])
      | None \<Rightarrow>
     (case Controllers s (delete_Name req) of
        None \<Rightarrow>
          if delete_AllowMissing req then (Inr (), s, [])
          else (Inl (Errorf (''error finding controller '' @ delete_Name req)), s, [])
      | Some controller \<Rightarrow>
     (case Spec controller of
        None \<Rightarrow> (Inl NilPointerPanic, s, [])
      | Some spec \<Rightarrow>
     (case SubsystemId spec of
        None \<Rightarrow> (Inl NilPointerPanic, s, [])
      | Some key \<Rightarrow>
     (case Subsystems s (Value key) of
        None \<Rightarrow> (Inl (StatusError NotFound (''unable to find key '' @ Value key)), s, [])
      | Some subsys \<Rightarrow>
     (case subsys_Spec subsys of
        None \<Rightarrow> (Inl NilPointerPanic, s, [])
      | Some ss \<Rightarrow>
     (let params = \<lparr> remove_Subnqn = Nqn ss,
                     remove_CtrlrID = int_of_int32 (NvmeControllerId spec),
                     Force = 1 \<rparr>;
          call = (''mrvl_nvm_subsys_remove_ctrlr'', RemoveCtrlrParams params) in
      case Call_RemoveCtrlr env ''mrvl_nvm_subsys_remove_ctrlr'' params of
        Inl err \<Rightarrow> (Inl err, s, [call])
      | Inr result \<Rightarrow>
          if remove_Status result \<noteq> 0
          then (Inl (StatusError InvalidArgument (''Could not delete CTRL: '' @ Name controller)), s, [call])
          else (Inr (), s \<lparr> Controllers := (Controllers s)(Name controller := None) \<rparr>, [call])))))))))"

text \<open>
  \<^verbatim>\<open>UpdateNvmeController\<close>, lines 153-215. \<^verbatim>\<open>AllowMissing\<close> only logs; \<^verbatim>\<open>path.Base\<close> of the
  stored name is only logged. The call passes Create's parameter and result structs under
  the procedure name of line 199.
\<close>

definition UpdateNvmeController ::
  "Env \<Rightarrow> Server \<Rightarrow> UpdateNvmeControllerRequest \<Rightarrow> NvmeController outcome" where
  "UpdateNvmeController env s req =
     (case ValidateRequiredFields_Update env req of
        Some err \<Rightarrow> (Inl err, s, [])
      | None \<Rightarrow>
     (case update_NvmeController req of
        None \<Rightarrow> (Inl NilPointerPanic, s, [])
      | Some ctrl \<Rightarrow>
     (case resourcename_Validate env (Name ctrl) of
        Some err \<Rightarrow> (Inl err, s, [])
      | None \<Rightarrow>
     (case Controllers s (Name ctrl) of
        None \<Rightarrow> (Inl (StatusError NotFound (''unable to find key '' @ Name ctrl)), s, [])
      | Some volume \<Rightarrow>
     (case fieldmask_Validate env (update_UpdateMask req) ctrl of
        Some err \<Rightarrow> (Inl err, s, [])
      | None \<Rightarrow>
     (case Spec ctrl of
        None \<Rightarrow> (Inl NilPointerPanic, s, [])
      | Some spec \<Rightarrow>
     (case SubsystemId spec of
        None \<Rightarrow> (Inl NilPointerPanic, s, [])
      | Some key \<Rightarrow>
     (case Subsystems s (Value key) of
        None \<Rightarrow> (Inl (StatusError NotFound (''unable to find key '' @ Value key)), s, [])
      | Some subsys \<Rightarrow>
     (case create_ctrlr_params subsys spec of
        Inl panic \<Rightarrow> (Inl panic, s, [])
      | Inr params \<Rightarrow>
     (let call = (''mrvl_nvm_subsys_update_ctrlr'', CreateCtrlrParams params) in
      case Call_CreateCtrlr env ''mrvl_nvm_subsys_update_ctrlr'' params of
        Inl err \<Rightarrow> (Inl err, s, [call])
      | Inr result \<Rightarrow>
          if create_Status result \<noteq> 0
          then (Inl (StatusError InvalidArgument (''Could not update CTRL: '' @ Name ctrl)), s, [call])
          else
            (let response = ctrl
                   \<lparr> Spec := Some (spec \<lparr> NvmeControllerId := int32_of_int (create_result_CtrlrID result) \<rparr>),
                     Status := Some \<lparr> Active = True \<rparr> \<rparr>
             in (Inr response, s \<lparr> Controllers := (Controllers s)(Name ctrl \<mapsto> response) \<rparr>, [call]))))))))))))"

text \<open>
  Modelled from the spec: \<^verbatim>\<open>server.LimitPagination\<close> belongs to the SPDK bridge library and
  is not part of the source file. It applies the window from \<open>offset\<close> up to, not
  including, \<open>offset + size\<close> to the list and tells whether elements remain beyond it.
\<close>

definition LimitPagination :: "'a list \<Rightarrow> go_int \<Rightarrow> go_int \<Rightarrow> 'a list \<times> bool" where
  "LimitPagination result offset sz =
     (drop (nat (sint offset)) (take (nat (sint offset + sint sz)) result),
      sint offset + sint sz < int (length result))"

text \<open>The comparison closure of line 32, on two elements of the slice.\<close>

definition controllers_less :: "NvmeController \<Rightarrow> NvmeController \<Rightarrow> bool" where
  "controllers_less a b =
     (case Spec a of
        None \<Rightarrow> False
      | Some sa \<Rightarrow>
          (case Spec b of
             None \<Rightarrow> False
           | Some sb \<Rightarrow> NvmeControllerId sa <s NvmeControllerId sb))"

text \<open>
  \<^verbatim>\<open>sortNvmeControllers\<close>, lines 30-34. \<^verbatim>\<open>sort.Slice\<close> compares every element of a slice of
  two or more, so a nil \<^verbatim>\<open>Spec\<close> in such a slice panics inside the closure.
\<close>

definition sortNvmeControllers :: "Env \<Rightarrow> NvmeController list \<Rightarrow> error + NvmeController list" where
  "sortNvmeControllers env controllers =
     (if 2 \<le> length controllers \<and> (\<exists>c \<in> set controllers. Spec c = None)
      then Inl NilPointerPanic
      else Inr (sort_Slice env controllers_less controllers))"

text \<open>The literal \<^verbatim>\<open>&pb.NvmeControllerSpec{NvmeControllerId: id}\<close>: every other field zero.\<close>

definition spec_with_id :: "int32 \<Rightarrow> NvmeControllerSpec" where
  "spec_with_id cid =
     \<lparr> SubsystemId = None, PcieId = None, NvmeControllerId = cid,
       MaxNsq = 0, MaxNcq = 0, Sqes = 0 \<rparr>"

text \<open>The element built at line 262 from one entry of the backend's list.\<close>

definition Blob :: "CtrlrIDListEntry \<Rightarrow> NvmeController" where
  "Blob r = \<lparr> Name = '''', Spec = Some (spec_with_id (int32_of_int (CtrlrID r))), Status = None \<rparr>"

text \<open>
  \<^verbatim>\<open>ListNvmeControllers\<close>, lines 218-266. The response literal of line 265 sets the
  controllers only, so its \<^verbatim>\<open>NextPageToken\<close> is the empty string.
\<close>

definition ListNvmeControllers ::
  "Env \<Rightarrow> Server \<Rightarrow> ListNvmeControllersRequest \<Rightarrow> ListNvmeControllersResponse outcome" where
  "ListNvmeControllers env s req =
     (case ValidateRequiredFields_List env req of
        Some err \<Rightarrow> (Inl err, s, [])
      | None \<Rightarrow>
     (case ExtractPagination env (list_PageSize req) (list_PageToken req) (Pagination s) of
        Inl perr \<Rightarrow> (Inl perr, s, [])
      | Inr (sz, offset) \<Rightarrow>
     (case Subsystems s (list_Parent req) of
        None \<Rightarrow> (Inl (StatusError NotFound (''unable to find key '' @ list_Parent req)), s, [])
      | Some subsys \<Rightarrow>
     (case subsys_Spec subsys of
        None \<Rightarrow> (Inl NilPointerPanic, s, [])
      | Some ss \<Rightarrow>
     (let params = \<lparr> list_Subnqn = Nqn ss \<rparr>;
          call = (''mrvl_nvm_subsys_get_ctrlr_list'', GetCtrlrListParams params) in
      case Call_GetCtrlrList env ''mrvl_nvm_subsys_get_ctrlr_list'' params of
        Inl err \<Rightarrow> (Inl err, s, [call])
      | Inr result \<Rightarrow>
          if list_Status result \<noteq> 0
          then (Inl (StatusError InvalidArgument (''Could not list CTRLs: '' @ list_Parent req)), s, [call])
          else
            (case LimitPagination (CtrlrIDList result) offset sz of
               (limited, hasMoreElements) \<Rightarrow>
            (let s' = (if hasMoreElements
                       then s \<lparr> Pagination := (Pagination s)(uuid_New env \<mapsto> offset + sz) \<rparr>
                       else s);
                 Blobarray = map Blob limited in
             case sortNvmeControllers env Blobarray of
               Inl panic \<Rightarrow> (Inl panic, s', [call])
             | Inr sorted_controllers \<Rightarrow>
                 (Inr \<lparr> NvmeControllers = sorted_controllers, NextPageToken = '''' \<rparr>, s', [call]))))))))"

text \<open>\<^verbatim>\<open>GetNvmeController\<close>, lines 269-311.\<close>

definition GetNvmeController ::
  "Env \<Rightarrow> Server \<Rightarrow> GetNvmeControllerRequest \<Rightarrow> NvmeController outcome" where
  "GetNvmeController env s req =
     (case ValidateRequiredFields_Get env req of
        Some err \<Rightarrow> (Inl err, s, [])
      | None \<Rightarrow>
     (case resourcename_Validate env (get_Name req) of
        Some err \<Rightarrow> (Inl err, s, [])
      | None \<Rightarrow>
     (case Controllers s (get_Name req) of
        None \<Rightarrow> (Inl (Errorf (''error finding controller '' @ get_Name req)), s, [])
      | Some controller \<Rightarrow>
     (case Spec controller of
        None \<Rightarrow> (Inl NilPointerPanic, s, [])
      | Some spec \<Rightarrow>
     (case SubsystemId spec of
        None \<Rightarrow> (Inl NilPointerPanic, s, [])
      | Some key \<Rightarrow>
     (case Subsystems s (Value key) of
        None \<Rightarrow> (Inl (StatusError NotFound (''unable to find key '' @ Value key)), s, [])
      | Some subsys \<Rightarrow>
     (case subsys_Spec subsys of
        None \<Rightarrow> (Inl NilPointerPanic, s, [])
      | Some ss \<Rightarrow>
     (let params = \<lparr> info_Subnqn = Nqn ss,
                     info_CtrlrID = int_of_int32 (NvmeControllerId spec) \<rparr>;
          call = (''mrvl_nvm_ctrlr_get_info'', GetCtrlrInfoParams params) in
      case Call_GetCtrlrInfo env ''mrvl_nvm_ctrlr_get_info'' params of
        Inl err \<Rightarrow> (Inl err, s, [call])
      | Inr result \<Rightarrow>
          if info_Status result \<noteq> 0
          then (Inl (StatusError InvalidArgument (''Could not get CTRL: '' @ get_Name req)), s, [call])
          else
            (Inr \<lparr> Name = get_Name req,
                   Spec = Some (spec_with_id (NvmeControllerId spec)),
                   Status = Some \<lparr> Active = True \<rparr> \<rparr>, s, [call])))))))))"

text \<open>\<^verbatim>\<open>NvmeControllerStats\<close>, lines 314-362.\<close>

definition NvmeControllerStats ::
  "Env \<Rightarrow> Server \<Rightarrow> NvmeControllerStatsRequest \<Rightarrow> NvmeControllerStatsResponse outcome" where
  "NvmeControllerStats env s req =
     (case ValidateRequiredFields_Stats env req of
        Some err \<Rightarrow> (Inl err, s, [])
      | None \<Rightarrow>
     (case stats_Id req of
        None \<Rightarrow> (Inl NilPointerPanic, s, [])
      | Some ident \<Rightarrow>
     (case resourcename_Validate env (Value ident) of
        Some err \<Rightarrow> (Inl err, s, [])
      | None \<Rightarrow>
     (case Controllers s (Value ident) of
        None \<Rightarrow> (Inl (Errorf (''error finding controller '' @ Value ident)), s, [])
      | Some controller \<Rightarrow>
     (case Spec controller of
        None \<Rightarrow> (Inl NilPointerPanic, s, [])
      | Some spec \<Rightarrow>
     (case SubsystemId spec of
        None \<Rightarrow> (Inl NilPointerPanic, s, [])
      | Some key \<Rightarrow>
     (case Subsystems s (Value key) of
        None \<Rightarrow> (Inl (StatusError NotFound (''unable to find key '' @ Value key)), s, [])
      | Some subsys \<Rightarrow>
     (case subsys_Spec subsys of
        None \<Rightarrow> (Inl NilPointerPanic, s, [])
      | Some ss \<Rightarrow>
     (let params = \<lparr> stats_Subnqn = Nqn ss,
                     stats_CtrlrID = int_of_int32 (NvmeControllerId spec) \<rparr>;
          call = (''mrvl_nvm_get_ctrlr_stats'', GetCtrlrStatsParams params) in
      case Call_GetCtrlrStats env ''mrvl_nvm_get_ctrlr_stats'' params of
        Inl err \<Rightarrow> (Inl err, s, [call])
      | Inr result \<Rightarrow>
          if stats_Status result \<noteq> 0
          then (Inl (StatusError InvalidArgument (''Could not stats CTRL: '' @ Value ident)), s, [call])
          else
            (Inr \<lparr> Stats =
                     \<lparr> ReadBytesCount = int32_of_int (NumReadBytes result),
                       ReadOpsCount = int32_of_int (NumReadCmds result),
                       WriteBytesCount = int32_of_int (NumWriteBytes result),
                       WriteOpsCount = int32_of_int (NumWriteCmds result),
                       ReadLatencyTicks = int32_of_int (TotalReadLatencyInUs result),
                       WriteLatencyTicks = int32_of_int (TotalWriteLatencyInUs result) \<rparr> \<rparr>,
             s, [call]))))))))))"

section \<open>Notions used to state the properties\<close>

text \<open>
  The \<open>Status\<close> field of the backend's reply to a recorded invocation; \<open>None\<close> when the
  transport failed and no reply was decoded.
\<close>

definition backend_status :: "Env \<Rightarrow> rpc_call \<Rightarrow> go_int option" where
  "backend_status env call =
     (case snd call of
        CreateCtrlrParams p \<Rightarrow>
          (case Call_CreateCtrlr env (fst call) p of Inl err \<Rightarrow> None | Inr r \<Rightarrow> Some (create_Status r))
      | RemoveCtrlrParams p \<Rightarrow>
          (case Call_RemoveCtrlr env (fst call) p of Inl err \<Rightarrow> None | Inr r \<Rightarrow> Some (remove_Status r))
      | GetCtrlrListParams p \<Rightarrow>
          (case Call_GetCtrlrList env (fst call) p of Inl err \<Rightarrow> None | Inr r \<Rightarrow> Some (list_Status r))
      | GetCtrlrInfoParams p \<Rightarrow>
          (case Call_GetCtrlrInfo env (fst call) p of Inl err \<Rightarrow> None | Inr r \<Rightarrow> Some (info_Status r))
      | GetCtrlrStatsParams p \<Rightarrow>
          (case Call_GetCtrlrStats env (fst call) p of Inl err \<Rightarrow> None | Inr r \<Rightarrow> Some (stats_Status r)))"

text \<open>
  Atomicity of one outcome with respect to the state \<open>s\<close> the operation started in: a
  failure leaves the whole state as it was; the controller registry differs only if some
  invocation was answered with status zero; and an invocation answered with a non-zero
  status makes the operation fail with \<open>InvalidArgument\<close>.
\<close>

definition atomic_on_failure :: "Env \<Rightarrow> Server \<Rightarrow> 'a outcome \<Rightarrow> bool" where
  "atomic_on_failure env s out =
     (case out of (res, s', calls) \<Rightarrow>
        (isl res \<longrightarrow> s' = s) \<and>
        (Controllers s' \<noteq> Controllers s \<longrightarrow> (\<exists>c \<in> set calls. backend_status env c = Some 0)) \<and>
        (\<forall>c \<in> set calls. \<forall>st. backend_status env c = Some st \<and> st \<noteq> 0 \<longrightarrow>
           (\<exists>msg. res = Inl (StatusError InvalidArgument msg))))"

text \<open>
  What \<^verbatim>\<open>sort.Slice\<close> promises for the closure of line 32: the slice is permuted, and
  afterwards no element is less than an earlier one. It does not promise stability.
\<close>

definition sort_Slice_contract :: "Env \<Rightarrow> bool" where
  "sort_Slice_contract env =
     (\<forall>xs. mset (sort_Slice env controllers_less xs) = mset xs \<and>
           ((\<forall>c \<in> set xs. Spec c \<noteq> None) \<longrightarrow>
              sorted_wrt (\<lambda>a b. \<not> controllers_less b a) (sort_Slice env controllers_less xs)))"

text \<open>The controller id of a list element, as a signed number (the sort key).\<close>

definition id_of :: "NvmeController \<Rightarrow> int option" where
  "id_of c = map_option (\<lambda>sp. sint (NvmeControllerId sp)) (Spec c)"

text \<open>The window from \<open>offset\<close> up to, not including, \<open>offset + size\<close> of a list.\<close>

definition window :: "go_int \<Rightarrow> go_int \<Rightarrow> 'a list \<Rightarrow> 'a list" where
  "window offset sz xs = drop (nat (sint offset)) (take (nat (sint offset + sint sz)) xs)"

section \<open>Test doubles\<close>

text \<open>
  A sorting routine that meets the contract of \<^verbatim>\<open>sort.Slice\<close> and is not stable: an
  element is inserted behind the elements it is not less than, scanning from the back of
  the input, so equal elements come out in reverse order.
\<close>

fun insert_by :: "('a \<Rightarrow> 'a \<Rightarrow> bool) \<Rightarrow> 'a \<Rightarrow> 'a list \<Rightarrow> 'a list" where
  "insert_by lt x [] = [x]"
| "insert_by lt x (y # ys) = (if lt x y then x # y # ys else y # insert_by lt x ys)"

definition sort_by :: "('a \<Rightarrow> 'a \<Rightarrow> bool) \<Rightarrow> 'a list \<Rightarrow> 'a list" where
  "sort_by lt xs = foldr (insert_by lt) xs []"

text \<open>
  Collaborators that accept every input: the backend answers status zero, assigns the
  controller id 5, lists the ids 3, 1, 2, 1 and reports 1024 bytes read by 4 commands.
\<close>

definition demo_env :: Env where
  "demo_env =
     \<lparr> ValidateRequiredFields_Create = (\<lambda>req. None),
       ValidateRequiredFields_Delete = (\<lambda>req. None),
       ValidateRequiredFields_Update = (\<lambda>req. None),
       ValidateRequiredFields_List = (\<lambda>req. None),
       ValidateRequiredFields_Get = (\<lambda>req. None),
       ValidateRequiredFields_Stats = (\<lambda>req. None),
       ValidateUserSettable = (\<lambda>rid. None),
       resourcename_Validate = (\<lambda>name. None),
       fieldmask_Validate = (\<lambda>mask ctrl. None),
       NewSystemGenerated = ''generated'',
       ResourceIDToVolumeName = (\<lambda>rid. ''//storage.opiproject.org/volumes/'' @ rid),
       uuid_New = ''token'',
       ExtractPagination = (\<lambda>pageSize pageToken pagination.
          if pageToken = '''' then Inr (scast pageSize, 0)
          else (case pagination pageToken of
                  None \<Rightarrow> Inl (StatusError NotFound (''unable to find pagination token '' @ pageToken))
                | Some offset \<Rightarrow> Inr (scast pageSize, offset))),
       sort_Slice = sort_by,
       Call_CreateCtrlr = (\<lambda>method p. Inr \<lparr> create_Status = 0, create_result_CtrlrID = 5 \<rparr>),
       Call_RemoveCtrlr = (\<lambda>method p. Inr \<lparr> remove_Status = 0 \<rparr>),
       Call_GetCtrlrList = (\<lambda>method p. Inr \<lparr> list_Status = 0,
          CtrlrIDList = [\<lparr> CtrlrID = 3 \<rparr>, \<lparr> CtrlrID = 1 \<rparr>, \<lparr> CtrlrID = 2 \<rparr>, \<lparr> CtrlrID = 1 \<rparr>] \<rparr>),
       Call_GetCtrlrInfo = (\<lambda>method p. Inr \<lparr> info_Status = 0 \<rparr>),
       Call_GetCtrlrStats = (\<lambda>method p. Inr \<lparr> stats_Status = 0,
          NumReadBytes = 1024, NumReadCmds = 4, NumWriteBytes = 0, NumWriteCmds = 0,
          TotalReadLatencyInUs = 0, TotalWriteLatencyInUs = 0 \<rparr>) \<rparr>"

text \<open>The same collaborators with a backend that answers every create with status 1.\<close>

definition failing_env :: Env where
  "failing_env =
     demo_env \<lparr> Call_CreateCtrlr := (\<lambda>method p. Inr \<lparr> create_Status = 1, create_result_CtrlrID = 0 \<rparr>) \<rparr>"

text \<open>The same collaborators with a backend whose read byte counter exceeds 32 bits.\<close>

definition wide_env :: Env where
  "wide_env =
     demo_env \<lparr> Call_GetCtrlrStats := (\<lambda>method p. Inr \<lparr> stats_Status = 0,
        NumReadBytes = 4294968320, NumReadCmds = 4, NumWriteBytes = 0, NumWriteCmds = 0,
        TotalReadLatencyInUs = 0, TotalWriteLatencyInUs = 0 \<rparr>) \<rparr>"

definition demo_spec :: NvmeControllerSpec where
  "demo_spec =
     \<lparr> SubsystemId = Some \<lparr> Value = ''subsys0'' \<rparr>,
       PcieId = Some \<lparr> PortId = 0, PhysicalFunction = 1, VirtualFunction = 2 \<rparr>,
       NvmeControllerId = 17, MaxNsq = 8, MaxNcq = 8, Sqes = 6 \<rparr>"

definition demo_controller :: NvmeController where
  "demo_controller = \<lparr> Name = ''ignored'', Spec = Some demo_spec, Status = None \<rparr>"

definition demo_name :: string where
  "demo_name = ''//storage.opiproject.org/volumes/ctrl0''"

text \<open>The controller as Create stores it: canonical name, backend id 5, active.\<close>

definition stored_controller :: NvmeController where
  "stored_controller =
     \<lparr> Name = demo_name,
       Spec = Some (demo_spec \<lparr> NvmeControllerId := 5 \<rparr>),
       Status = Some \<lparr> Active = True \<rparr> \<rparr>"

definition demo_subsystems :: "string \<rightharpoonup> NvmeSubsystem" where
  "demo_subsystems = [''subsys0'' \<mapsto> \<lparr> subsys_Spec = Some \<lparr> Nqn = ''nqn.2022-09.io.spdk:opi3'' \<rparr> \<rparr>]"

text \<open>A server with the subsystem and no controller, and one holding the controller.\<close>

definition empty_server :: Server where
  "empty_server =
     \<lparr> Controllers = Map.empty, Subsystems = demo_subsystems, Pagination = Map.empty \<rparr>"

definition demo_server :: Server where
  "demo_server =
     \<lparr> Controllers = [demo_name \<mapsto> stored_controller],
       Subsystems = demo_subsystems, Pagination = Map.empty \<rparr>"

text \<open>A server whose only controller refers to a subsystem that is not registered.\<close>

definition dangling_server :: Server where
  "dangling_server =
     \<lparr> Controllers = [demo_name \<mapsto> stored_controller],
       Subsystems = Map.empty, Pagination = Map.empty \<rparr>"

definition create_request :: CreateNvmeControllerRequest where
  "create_request =
     \<lparr> create_NvmeController = Some demo_controller, create_NvmeControllerId = ''ctrl0'' \<rparr>"

definition update_request :: UpdateNvmeControllerRequest where
  "update_request =
     \<lparr> update_NvmeController = Some (demo_controller \<lparr> Name := demo_name \<rparr>),
       update_UpdateMask = None, update_AllowMissing = False \<rparr>"

section \<open>Properties\<close>

subsection \<open>Conversions\<close>

lemma int32_of_int_truncates: "uint (int32_of_int x) = uint x mod 2 ^ 32"
  by (simp add: int32_of_int_def unsigned_ucast_eq take_bit_eq_mod)

subsection \<open>Update's backend procedure\<close>

text \<open>
  C1, as the claim states it, fails. On a server that holds the controller and its
  subsystem, Update makes one backend invocation, and its procedure name is
  \<^verbatim>\<open>mrvl_nvm_subsys_update_ctrlr\<close>, not Create's \<^verbatim>\<open>mrvl_nvm_subsys_create_ctrlr\<close>.
\<close>

theorem update_procedure_counterexample:
  "Controllers demo_server demo_name = Some stored_controller \<and>
   Subsystems demo_server ''subsys0'' = Some \<lparr> subsys_Spec = Some \<lparr> Nqn = ''nqn.2022-09.io.spdk:opi3'' \<rparr> \<rparr> \<and>
   snd (snd (UpdateNvmeController demo_env demo_server update_request)) =
     [(''mrvl_nvm_subsys_update_ctrlr'',
       CreateCtrlrParams \<lparr> create_Subnqn = ''nqn.2022-09.io.spdk:opi3'', PcieDomainID = 0,
         PfID = 1, VfID = 2, create_CtrlrID = 17, MaxNsq_param = 8, MaxNcq_param = 8, Mqes = 6 \<rparr>)] \<and>
   map fst (snd (snd (UpdateNvmeController demo_env demo_server update_request))) \<noteq>
     [''mrvl_nvm_subsys_create_ctrlr'']"
  by (simp add: UpdateNvmeController_def update_request_def demo_env_def demo_server_def
      demo_controller_def demo_spec_def demo_subsystems_def demo_name_def create_ctrlr_params_def
      int_of_int32_def stored_controller_def Let_def)

text \<open>
  C1, amended. Whatever the request, Update makes at most one backend invocation, and
  when it makes one the procedure is \<^verbatim>\<open>mrvl_nvm_subsys_update_ctrlr\<close>, passed Create's
  parameter struct. For every Update request that passes the validators, names a stored
  controller and carries a non-nil spec with a non-nil subsystem reference and a non-nil
  \<^verbatim>\<open>PcieId\<close>, and whose subsystem reference resolves to a subsystem with a non-nil spec,
  exactly that one invocation is made, with the parameters rebuilt from the new spec
  (subsystem qualified name, PCIe domain, function and virtual function, requested
  controller id, maximum submission and completion queue counts, queue-depth parameter).
\<close>

theorem update_backend_call:
  "(snd (snd (UpdateNvmeController env s req)) = [] \<or>
    (\<exists>p. snd (snd (UpdateNvmeController env s req)) =
       [(''mrvl_nvm_subsys_update_ctrlr'', CreateCtrlrParams p)]))
   \<and>
   (ValidateRequiredFields_Update env req = None \<and>
    update_NvmeController req = Some ctrl \<and>
    resourcename_Validate env (Name ctrl) = None \<and>
    Controllers s (Name ctrl) = Some volume \<and>
    fieldmask_Validate env (update_UpdateMask req) ctrl = None \<and>
    Spec ctrl = Some spec \<and> SubsystemId spec = Some key \<and> PcieId spec = Some pcie \<and>
    Subsystems s (Value key) = Some subsys \<and> subsys_Spec subsys = Some ss
    \<longrightarrow> snd (snd (UpdateNvmeController env s req)) =
          [(''mrvl_nvm_subsys_update_ctrlr'',
            CreateCtrlrParams
              \<lparr> create_Subnqn = Nqn ss,
                PcieDomainID = int_of_int32 (PortId pcie),
                PfID = int_of_int32 (PhysicalFunction pcie),
                VfID = int_of_int32 (VirtualFunction pcie),
                create_CtrlrID = int_of_int32 (NvmeControllerId spec),
                MaxNsq_param = int_of_int32 (MaxNsq spec),
                MaxNcq_param = int_of_int32 (MaxNcq spec),
                Mqes = int_of_int32 (Sqes spec) \<rparr>)])"
proof (intro conjI impI)
  show "snd (snd (UpdateNvmeController env s req)) = [] \<or>
    (\<exists>p. snd (snd (UpdateNvmeController env s req)) =
       [(''mrvl_nvm_subsys_update_ctrlr'', CreateCtrlrParams p)])"
    by (simp add: UpdateNvmeController_def Let_def split: option.splits sum.splits)
next
  assume "ValidateRequiredFields_Update env req = None \<and>
    update_NvmeController req = Some ctrl \<and>
    resourcename_Validate env (Name ctrl) = None \<and>
    Controllers s (Name ctrl) = Some volume \<and>
    fieldmask_Validate env (update_UpdateMask req) ctrl = None \<and>
    Spec ctrl = Some spec \<and> SubsystemId spec = Some key \<and> PcieId spec = Some pcie \<and>
    Subsystems s (Value key) = Some subsys \<and> subsys_Spec subsys = Some ss"
  then show "snd (snd (UpdateNvmeController env s req)) =
          [(''mrvl_nvm_subsys_update_ctrlr'',
            CreateCtrlrParams
              \<lparr> create_Subnqn = Nqn ss,
                PcieDomainID = int_of_int32 (PortId pcie),
                PfID = int_of_int32 (PhysicalFunction pcie),
                VfID = int_of_int32 (VirtualFunction pcie),
                create_CtrlrID = int_of_int32 (NvmeControllerId spec),
                MaxNsq_param = int_of_int32 (MaxNsq spec),
                MaxNcq_param = int_of_int32 (MaxNcq spec),
                Mqes = int_of_int32 (Sqes spec) \<rparr>)]"
    by (simp add: UpdateNvmeController_def create_ctrlr_params_def Let_def split: sum.splits)
qed

theorem update_backend_call_witness:
  "snd (snd (UpdateNvmeController failing_env demo_server update_request)) =
     [(''mrvl_nvm_subsys_update_ctrlr'',
       CreateCtrlrParams \<lparr> create_Subnqn = ''nqn.2022-09.io.spdk:opi3'', PcieDomainID = 0,
         PfID = 1, VfID = 2, create_CtrlrID = 17, MaxNsq_param = 8, MaxNcq_param = 8, Mqes = 6 \<rparr>)] \<and>
   snd (snd (UpdateNvmeController demo_env demo_server
     \<lparr> update_NvmeController =
         Some (demo_controller \<lparr> Name := demo_name, Spec := Some (demo_spec \<lparr> PcieId := None \<rparr>) \<rparr>),
       update_UpdateMask = None, update_AllowMissing = False \<rparr>)) = []"
proof -
  have nil_pcie: "snd (snd (UpdateNvmeController demo_env demo_server
     \<lparr> update_NvmeController =
         Some (demo_controller \<lparr> Name := demo_name, Spec := Some (demo_spec \<lparr> PcieId := None \<rparr>) \<rparr>),
       update_UpdateMask = None, update_AllowMissing = False \<rparr>)) = []"
    by (simp add: UpdateNvmeController_def demo_env_def demo_server_def demo_controller_def
        demo_spec_def demo_subsystems_def demo_name_def create_ctrlr_params_def)
  from nil_pcie update_backend_call
    [where env = failing_env and s = demo_server and req = update_request
       and ctrl = "demo_controller \<lparr> Name := demo_name \<rparr>" and volume = stored_controller
       and spec = demo_spec and key = "\<lparr> Value = ''subsys0'' \<rparr>"
       and pcie = "\<lparr> PortId = 0, PhysicalFunction = 1, VirtualFunction = 2 \<rparr>"
       and subsys = "\<lparr> subsys_Spec = Some \<lparr> Nqn = ''nqn.2022-09.io.spdk:opi3'' \<rparr> \<rparr>"
       and ss = "\<lparr> Nqn = ''nqn.2022-09.io.spdk:opi3'' \<rparr>"]
  show ?thesis
    by (simp add: update_request_def failing_env_def demo_env_def demo_server_def
        demo_controller_def demo_spec_def demo_subsystems_def demo_name_def int_of_int32_def)
qed

subsection \<open>Idempotent creation\<close>

text \<open>
  C3. A Create call that passes the checks of lines 40-57 and whose canonical name is
  already in the registry returns the stored object, makes no backend invocation and
  leaves the state as it was. Hence, when a Create with an explicit id returns an object,
  a second Create with the same request returns the same object without any backend
  invocation, whatever the backend would answer then, so that the two calls together
  invoke the create procedure at most once.
\<close>

theorem create_idempotent:
  "(ValidateRequiredFields_Create env req = None \<and>
    create_NvmeController req = Some ctrl \<and> Spec ctrl = Some spec \<and>
    SubsystemId spec = Some key \<and> Value key \<noteq> '''' \<and>
    (create_NvmeControllerId req \<noteq> '''' \<longrightarrow>
       ValidateUserSettable env (create_NvmeControllerId req) = None) \<and>
    Controllers s (ResourceIDToVolumeName env
       (if create_NvmeControllerId req \<noteq> '''' then create_NvmeControllerId req
        else NewSystemGenerated env)) = Some stored
    \<longrightarrow> CreateNvmeController env s req = (Inr stored, s, []))
   \<and>
   (create_NvmeControllerId req \<noteq> '''' \<and>
    CreateNvmeController env s req = (Inr obj, s', calls)
    \<longrightarrow> CreateNvmeController (env \<lparr> Call_CreateCtrlr := backend' \<rparr>) s' req = (Inr obj, s', []) \<and>
        length (calls @ []) \<le> 1)"
  by (auto simp add: CreateNvmeController_def Let_def split: option.splits sum.splits if_splits)

theorem create_idempotent_witness:
  "CreateNvmeController demo_env empty_server create_request =
     (Inr stored_controller, demo_server,
      [(''mrvl_nvm_subsys_create_ctrlr'',
        CreateCtrlrParams \<lparr> create_Subnqn = ''nqn.2022-09.io.spdk:opi3'', PcieDomainID = 0,
          PfID = 1, VfID = 2, create_CtrlrID = 17, MaxNsq_param = 8, MaxNcq_param = 8, Mqes = 6 \<rparr>)]) \<and>
   CreateNvmeController failing_env demo_server create_request = (Inr stored_controller, demo_server, [])"
proof -
  have first: "CreateNvmeController demo_env empty_server create_request =
     (Inr stored_controller, demo_server,
      [(''mrvl_nvm_subsys_create_ctrlr'',
        CreateCtrlrParams \<lparr> create_Subnqn = ''nqn.2022-09.io.spdk:opi3'', PcieDomainID = 0,
          PfID = 1, VfID = 2, create_CtrlrID = 17, MaxNsq_param = 8, MaxNcq_param = 8, Mqes = 6 \<rparr>)])"
    by (simp add: CreateNvmeController_def create_request_def demo_env_def empty_server_def
        demo_server_def demo_controller_def demo_spec_def demo_subsystems_def demo_name_def
        create_ctrlr_params_def int_of_int32_def int32_of_int_def stored_controller_def Let_def)
  have "create_NvmeControllerId create_request \<noteq> ''''"
    by (simp add: create_request_def)
  with first create_idempotent [where env = demo_env and s = empty_server and req = create_request
      and obj = stored_controller and s' = demo_server
      and backend' = "\<lambda>method p. Inr \<lparr> create_Status = 1, create_result_CtrlrID = 0 \<rparr>"]
  show ?thesis by (simp add: failing_env_def)
qed

subsection \<open>Missing controllers and subsystems\<close>

text \<open>
  C5. A Delete request that passes the validators and names a controller absent from the
  registry succeeds as a no-op when allow-missing is set, and otherwise fails with the
  plain error \<^verbatim>\<open>error finding controller\<close>; either way no backend invocation is made and
  the state is untouched. The error is not a \<open>NotFound\<close> status, and it is the error that
  Get and Stats give for the same absent name.
\<close>

theorem delete_missing:
  assumes "ValidateRequiredFields_Delete env req = None"
    and "resourcename_Validate env (delete_Name req) = None"
    and "Controllers s (delete_Name req) = None"
  shows "DeleteNvmeController env s req =
           (if delete_AllowMissing req then (Inr (), s, [])
            else (Inl (Errorf (''error finding controller '' @ delete_Name req)), s, [])) \<and>
         (\<forall>msg. Errorf (''error finding controller '' @ delete_Name req) \<noteq> StatusError NotFound msg) \<and>
         (ValidateRequiredFields_Get env \<lparr> get_Name = delete_Name req \<rparr> = None \<longrightarrow>
            GetNvmeController env s \<lparr> get_Name = delete_Name req \<rparr> =
              (Inl (Errorf (''error finding controller '' @ delete_Name req)), s, [])) \<and>
         (ValidateRequiredFields_Stats env \<lparr> stats_Id = Some \<lparr> Value = delete_Name req \<rparr> \<rparr> = None \<longrightarrow>
            NvmeControllerStats env s \<lparr> stats_Id = Some \<lparr> Value = delete_Name req \<rparr> \<rparr> =
              (Inl (Errorf (''error finding controller '' @ delete_Name req)), s, []))"
  using assms
  by (simp add: DeleteNvmeController_def GetNvmeController_def NvmeControllerStats_def)

theorem delete_missing_witness:
  "DeleteNvmeController demo_env empty_server \<lparr> delete_Name = demo_name, delete_AllowMissing = True \<rparr>
     = (Inr (), empty_server, []) \<and>
   DeleteNvmeController demo_env empty_server \<lparr> delete_Name = demo_name, delete_AllowMissing = False \<rparr>
     = (Inl (Errorf ''error finding controller //storage.opiproject.org/volumes/ctrl0''), empty_server, [])"
  using delete_missing [of demo_env "\<lparr> delete_Name = demo_name, delete_AllowMissing = True \<rparr>" empty_server]
    delete_missing [of demo_env "\<lparr> delete_Name = demo_name, delete_AllowMissing = False \<rparr>" empty_server]
  by (simp add: demo_env_def empty_server_def demo_name_def)

text \<open>
  C6. When execution reaches the subsystem lookup (the validators pass; for Create the
  subsystem reference is non-empty and no controller is stored under the canonical name;
  for Update, Get and Stats the named controller is stored) and the subsystem key is not
  in the subsystem map, the operation fails with the \<open>NotFound\<close> status that names the
  key, makes no backend invocation and leaves the state as it was. For Create and Update
  the key is the request's, for Get and Stats the stored controller's.
\<close>

theorem missing_subsystem_NotFound:
  "(ValidateRequiredFields_Create env cr = None \<and>
    create_NvmeController cr = Some ctrl \<and> Spec ctrl = Some spec \<and>
    SubsystemId spec = Some key \<and> Value key \<noteq> '''' \<and>
    (create_NvmeControllerId cr \<noteq> '''' \<longrightarrow>
       ValidateUserSettable env (create_NvmeControllerId cr) = None) \<and>
    Controllers s (ResourceIDToVolumeName env
       (if create_NvmeControllerId cr \<noteq> '''' then create_NvmeControllerId cr
        else NewSystemGenerated env)) = None \<and>
    Subsystems s (Value key) = None
    \<longrightarrow> CreateNvmeController env s cr =
          (Inl (StatusError NotFound (''unable to find key '' @ Value key)), s, []))
   \<and>
   (ValidateRequiredFields_Update env ur = None \<and>
    update_NvmeController ur = Some uctrl \<and>
    resourcename_Validate env (Name uctrl) = None \<and>
    Controllers s (Name uctrl) = Some volume \<and>
    fieldmask_Validate env (update_UpdateMask ur) uctrl = None \<and>
    Spec uctrl = Some uspec \<and> SubsystemId uspec = Some ukey \<and>
    Subsystems s (Value ukey) = None
    \<longrightarrow> UpdateNvmeController env s ur =
          (Inl (StatusError NotFound (''unable to find key '' @ Value ukey)), s, []))
   \<and>
   (ValidateRequiredFields_Get env gr = None \<and>
    resourcename_Validate env (get_Name gr) = None \<and>
    Controllers s (get_Name gr) = Some gctrl \<and>
    Spec gctrl = Some gspec \<and> SubsystemId gspec = Some gkey \<and>
    Subsystems s (Value gkey) = None
    \<longrightarrow> GetNvmeController env s gr =
          (Inl (StatusError NotFound (''unable to find key '' @ Value gkey)), s, []))
   \<and>
   (ValidateRequiredFields_Stats env sr = None \<and>
    stats_Id sr = Some ident \<and>
    resourcename_Validate env (Value ident) = None \<and>
    Controllers s (Value ident) = Some sctrl \<and>
    Spec sctrl = Some sspec \<and> SubsystemId sspec = Some skey \<and>
    Subsystems s (Value skey) = None
    \<longrightarrow> NvmeControllerStats env s sr =
          (Inl (StatusError NotFound (''unable to find key '' @ Value skey)), s, []))"
  by (auto simp add: CreateNvmeController_def UpdateNvmeController_def GetNvmeController_def
      NvmeControllerStats_def)

theorem missing_subsystem_NotFound_witness:
  "CreateNvmeController demo_env (empty_server \<lparr> Subsystems := Map.empty \<rparr>) create_request =
     (Inl (StatusError NotFound ''unable to find key subsys0''),
      empty_server \<lparr> Subsystems := Map.empty \<rparr>, []) \<and>
   UpdateNvmeController demo_env dangling_server update_request =
     (Inl (StatusError NotFound ''unable to find key subsys0''), dangling_server, []) \<and>
   GetNvmeController demo_env dangling_server \<lparr> get_Name = demo_name \<rparr> =
     (Inl (StatusError NotFound ''unable to find key subsys0''), dangling_server, []) \<and>
   NvmeControllerStats demo_env dangling_server \<lparr> stats_Id = Some \<lparr> Value = demo_name \<rparr> \<rparr> =
     (Inl (StatusError NotFound ''unable to find key subsys0''), dangling_server, [])"
  using missing_subsystem_NotFound
    [where env = demo_env and s = "empty_server \<lparr> Subsystems := Map.empty \<rparr>"
       and cr = create_request and ctrl = demo_controller and spec = demo_spec
       and key = "\<lparr> Value = ''subsys0'' \<rparr>"]
    missing_subsystem_NotFound
    [where env = demo_env and s = dangling_server
       and ur = update_request and uctrl = "demo_controller \<lparr> Name := demo_name \<rparr>"
       and volume = stored_controller and uspec = demo_spec and ukey = "\<lparr> Value = ''subsys0'' \<rparr>"
       and gr = "\<lparr> get_Name = demo_name \<rparr>" and gctrl = stored_controller
       and gspec = "demo_spec \<lparr> NvmeControllerId := 5 \<rparr>" and gkey = "\<lparr> Value = ''subsys0'' \<rparr>"
       and sr = "\<lparr> stats_Id = Some \<lparr> Value = demo_name \<rparr> \<rparr>" and ident = "\<lparr> Value = demo_name \<rparr>"
       and sctrl = stored_controller
       and sspec = "demo_spec \<lparr> NvmeControllerId := 5 \<rparr>" and skey = "\<lparr> Value = ''subsys0'' \<rparr>"]
  by (simp add: demo_env_def empty_server_def dangling_server_def create_request_def
      update_request_def demo_controller_def demo_spec_def stored_controller_def demo_name_def)

subsection \<open>Statistics\<close>

text \<open>
  C8. A successful Stats call has made the one invocation \<^verbatim>\<open>mrvl_nvm_get_ctrlr_stats\<close>
  and was answered with status zero. Each field of the response is the corresponding
  backend counter truncated to 32 bits and nothing else: read as unsigned numbers, the
  field is the counter modulo \<open>2 ^ 32\<close>, which fixes every bit of the field. So 1024
  bytes read by 4 commands are reported as 1024 and 4, and a counter of
  \<open>2 ^ 32 + 1024\<close> is reported as 1024 too.
\<close>

theorem stats_mapping:
  assumes "NvmeControllerStats env s req = (Inr resp, s', calls)"
  shows "\<exists>p r. calls = [(''mrvl_nvm_get_ctrlr_stats'', GetCtrlrStatsParams p)] \<and>
           Call_GetCtrlrStats env ''mrvl_nvm_get_ctrlr_stats'' p = Inr r \<and>
           stats_Status r = 0 \<and>
           uint (ReadBytesCount (Stats resp)) = uint (NumReadBytes r) mod 2 ^ 32 \<and>
           uint (ReadOpsCount (Stats resp)) = uint (NumReadCmds r) mod 2 ^ 32 \<and>
           uint (WriteBytesCount (Stats resp)) = uint (NumWriteBytes r) mod 2 ^ 32 \<and>
           uint (WriteOpsCount (Stats resp)) = uint (NumWriteCmds r) mod 2 ^ 32 \<and>
           uint (ReadLatencyTicks (Stats resp)) = uint (TotalReadLatencyInUs r) mod 2 ^ 32 \<and>
           uint (WriteLatencyTicks (Stats resp)) = uint (TotalWriteLatencyInUs r) mod 2 ^ 32 \<and>
           (NumReadBytes r = 1024 \<and> NumReadCmds r = 4 \<longrightarrow>
              ReadBytesCount (Stats resp) = 1024 \<and> ReadOpsCount (Stats resp) = 4) \<and>
           (NumReadBytes r = 2 ^ 32 + 1024 \<longrightarrow> ReadBytesCount (Stats resp) = 1024)"
  using assms
  by (auto simp add: NvmeControllerStats_def int32_of_int_def Let_def
      unsigned_ucast_eq take_bit_eq_mod
      split: option.splits sum.splits if_splits)

theorem stats_mapping_witness:
  "NvmeControllerStats demo_env demo_server \<lparr> stats_Id = Some \<lparr> Value = demo_name \<rparr> \<rparr> =
     (Inr \<lparr> Stats = \<lparr> ReadBytesCount = 1024, ReadOpsCount = 4, WriteBytesCount = 0,
        WriteOpsCount = 0, ReadLatencyTicks = 0, WriteLatencyTicks = 0 \<rparr> \<rparr>,
      demo_server,
      [(''mrvl_nvm_get_ctrlr_stats'',
        GetCtrlrStatsParams \<lparr> stats_Subnqn = ''nqn.2022-09.io.spdk:opi3'', stats_CtrlrID = 5 \<rparr>)]) \<and>
   uint (ReadBytesCount (Stats (projr (fst
     (NvmeControllerStats wide_env demo_server \<lparr> stats_Id = Some \<lparr> Value = demo_name \<rparr> \<rparr>))))) =
     4294968320 mod 2 ^ 32"
proof -
  have run: "NvmeControllerStats demo_env demo_server \<lparr> stats_Id = Some \<lparr> Value = demo_name \<rparr> \<rparr> =
     (Inr \<lparr> Stats = \<lparr> ReadBytesCount = 1024, ReadOpsCount = 4, WriteBytesCount = 0,
        WriteOpsCount = 0, ReadLatencyTicks = 0, WriteLatencyTicks = 0 \<rparr> \<rparr>,
      demo_server,
      [(''mrvl_nvm_get_ctrlr_stats'',
        GetCtrlrStatsParams \<lparr> stats_Subnqn = ''nqn.2022-09.io.spdk:opi3'', stats_CtrlrID = 5 \<rparr>)])"
    by (simp add: NvmeControllerStats_def demo_env_def demo_server_def stored_controller_def
        demo_spec_def demo_subsystems_def demo_name_def int_of_int32_def int32_of_int_def Let_def)
  have wide: "NvmeControllerStats wide_env demo_server \<lparr> stats_Id = Some \<lparr> Value = demo_name \<rparr> \<rparr> =
     (Inr (projr (fst (NvmeControllerStats wide_env demo_server
              \<lparr> stats_Id = Some \<lparr> Value = demo_name \<rparr> \<rparr>))),
      demo_server,
      [(''mrvl_nvm_get_ctrlr_stats'',
        GetCtrlrStatsParams \<lparr> stats_Subnqn = ''nqn.2022-09.io.spdk:opi3'', stats_CtrlrID = 5 \<rparr>)])"
    by (simp add: NvmeControllerStats_def wide_env_def demo_env_def demo_server_def
        stored_controller_def demo_spec_def demo_subsystems_def demo_name_def int_of_int32_def Let_def)
  have reply: "Call_GetCtrlrStats wide_env ''mrvl_nvm_get_ctrlr_stats''
       \<lparr> stats_Subnqn = ''nqn.2022-09.io.spdk:opi3'', stats_CtrlrID = 5 \<rparr> =
     Inr \<lparr> stats_Status = 0, NumReadBytes = 4294968320, NumReadCmds = 4, NumWriteBytes = 0,
       NumWriteCmds = 0, TotalReadLatencyInUs = 0, TotalWriteLatencyInUs = 0 \<rparr>"
    by (simp add: wide_env_def demo_env_def)
  from stats_mapping [OF wide] reply
  have "uint (ReadBytesCount (Stats (projr (fst
     (NvmeControllerStats wide_env demo_server \<lparr> stats_Id = Some \<lparr> Value = demo_name \<rparr> \<rparr>))))) =
     4294968320 mod 2 ^ 32"
    by auto
  with run show ?thesis by simp
qed

subsection \<open>Nil fields\<close>

text \<open>
  C9. A Create request whose controller has a nil spec, a nil subsystem reference or an
  empty subsystem reference value (the condition of line 45) fails without a backend
  invocation and without a change of state; once the required-field validator has passed,
  the error is the \<open>InvalidArgument\<close> status of line 46.
\<close>

theorem create_rejects_empty_subsystem:
  assumes "create_NvmeController req = Some ctrl"
    and "Spec ctrl = None \<or> SubsystemId (the (Spec ctrl)) = None
           \<or> Value (the (SubsystemId (the (Spec ctrl)))) = ''''"
  shows "(\<exists>e. CreateNvmeController env s req = (Inl e, s, [])) \<and>
         (ValidateRequiredFields_Create env req = None \<longrightarrow>
            CreateNvmeController env s req =
              (Inl (StatusError InvalidArgument ''invalid input subsystem parameters''), s, []))"
  using assms
  by (auto simp add: CreateNvmeController_def split: option.splits)

theorem create_rejects_empty_subsystem_witness:
  "CreateNvmeController demo_env empty_server
      \<lparr> create_NvmeController = Some (demo_controller \<lparr> Spec := None \<rparr>),
        create_NvmeControllerId = ''ctrl0'' \<rparr>
     = (Inl (StatusError InvalidArgument ''invalid input subsystem parameters''), empty_server, []) \<and>
   CreateNvmeController demo_env empty_server
      \<lparr> create_NvmeController =
          Some (demo_controller \<lparr> Spec := Some (demo_spec \<lparr> SubsystemId := Some \<lparr> Value = '''' \<rparr> \<rparr>) \<rparr>),
        create_NvmeControllerId = ''ctrl0'' \<rparr>
     = (Inl (StatusError InvalidArgument ''invalid input subsystem parameters''), empty_server, [])"
  using create_rejects_empty_subsystem
    [of "\<lparr> create_NvmeController = Some (demo_controller \<lparr> Spec := None \<rparr>),
          create_NvmeControllerId = ''ctrl0'' \<rparr>" "demo_controller \<lparr> Spec := None \<rparr>"
        demo_env empty_server]
    create_rejects_empty_subsystem
    [of "\<lparr> create_NvmeController =
            Some (demo_controller \<lparr> Spec := Some (demo_spec \<lparr> SubsystemId := Some \<lparr> Value = '''' \<rparr> \<rparr>) \<rparr>),
          create_NvmeControllerId = ''ctrl0'' \<rparr>"
        "demo_controller \<lparr> Spec := Some (demo_spec \<lparr> SubsystemId := Some \<lparr> Value = '''' \<rparr> \<rparr>) \<rparr>"
        demo_env empty_server]
  by (simp add: demo_env_def)

text \<open>
  C10. Create guards the spec and the subsystem reference but not \<^verbatim>\<open>PcieId\<close>: a request
  that passes the checks, is not a replay and names a registered subsystem panics on a
  nil \<^verbatim>\<open>PcieId\<close> while the parameters are built. Update guards nothing: on a stored
  controller and after the validators, a nil \<^verbatim>\<open>Spec\<close> or a nil \<^verbatim>\<open>SubsystemId\<close> panics at
  the subsystem lookup of line 182, and a nil \<^verbatim>\<open>PcieId\<close> panics at line 190 once the
  subsystem has been found. No backend invocation is made and the state is unchanged.
\<close>

theorem nil_fields_panic:
  "(ValidateRequiredFields_Create env cr = None \<and>
    create_NvmeController cr = Some ctrl \<and> Spec ctrl = Some spec \<and>
    SubsystemId spec = Some key \<and> Value key \<noteq> '''' \<and>
    (create_NvmeControllerId cr \<noteq> '''' \<longrightarrow>
       ValidateUserSettable env (create_NvmeControllerId cr) = None) \<and>
    Controllers s (ResourceIDToVolumeName env
       (if create_NvmeControllerId cr \<noteq> '''' then create_NvmeControllerId cr
        else NewSystemGenerated env)) = None \<and>
    Subsystems s (Value key) = Some subsys \<and> PcieId spec = None
    \<longrightarrow> CreateNvmeController env s cr = (Inl NilPointerPanic, s, []))
   \<and>
   (ValidateRequiredFields_Update env ur = None \<and>
    update_NvmeController ur = Some uctrl \<and>
    resourcename_Validate env (Name uctrl) = None \<and>
    Controllers s (Name uctrl) = Some volume \<and>
    fieldmask_Validate env (update_UpdateMask ur) uctrl = None \<and>
    (Spec uctrl = None \<or> SubsystemId (the (Spec uctrl)) = None \<or>
     (Subsystems s (Value (the (SubsystemId (the (Spec uctrl))))) = Some usubsys \<and>
      PcieId (the (Spec uctrl)) = None))
    \<longrightarrow> UpdateNvmeController env s ur = (Inl NilPointerPanic, s, []))"
  by (auto simp add: CreateNvmeController_def UpdateNvmeController_def create_ctrlr_params_def
      split: option.splits)

theorem nil_fields_panic_witness:
  "CreateNvmeController demo_env empty_server
     \<lparr> create_NvmeController = Some (demo_controller \<lparr> Spec := Some (demo_spec \<lparr> PcieId := None \<rparr>) \<rparr>),
       create_NvmeControllerId = ''ctrl0'' \<rparr> = (Inl NilPointerPanic, empty_server, []) \<and>
   UpdateNvmeController demo_env demo_server
     \<lparr> update_NvmeController = Some (demo_controller \<lparr> Name := demo_name, Spec := None \<rparr>),
       update_UpdateMask = None, update_AllowMissing = False \<rparr> = (Inl NilPointerPanic, demo_server, []) \<and>
   UpdateNvmeController demo_env demo_server
     \<lparr> update_NvmeController =
         Some (demo_controller \<lparr> Name := demo_name, Spec := Some (demo_spec \<lparr> PcieId := None \<rparr>) \<rparr>),
       update_UpdateMask = None, update_AllowMissing = False \<rparr> = (Inl NilPointerPanic, demo_server, [])"
  using nil_fields_panic
    [where env = demo_env and s = empty_server
       and cr = "\<lparr> create_NvmeController = Some (demo_controller \<lparr> Spec := Some (demo_spec \<lparr> PcieId := None \<rparr>) \<rparr>),
                    create_NvmeControllerId = ''ctrl0'' \<rparr>"
       and ctrl = "demo_controller \<lparr> Spec := Some (demo_spec \<lparr> PcieId := None \<rparr>) \<rparr>"
       and spec = "demo_spec \<lparr> PcieId := None \<rparr>"
       and key = "\<lparr> Value = ''subsys0'' \<rparr>"
       and subsys = "\<lparr> subsys_Spec = Some \<lparr> Nqn = ''nqn.2022-09.io.spdk:opi3'' \<rparr> \<rparr>"]
    nil_fields_panic
    [where env = demo_env and s = demo_server
       and ur = "\<lparr> update_NvmeController = Some (demo_controller \<lparr> Name := demo_name, Spec := None \<rparr>),
                    update_UpdateMask = None, update_AllowMissing = False \<rparr>"
       and uctrl = "demo_controller \<lparr> Name := demo_name, Spec := None \<rparr>"
       and volume = stored_controller]
    nil_fields_panic
    [where env = demo_env and s = demo_server
       and ur = "\<lparr> update_NvmeController =
                      Some (demo_controller \<lparr> Name := demo_name, Spec := Some (demo_spec \<lparr> PcieId := None \<rparr>) \<rparr>),
                    update_UpdateMask = None, update_AllowMissing = False \<rparr>"
       and uctrl = "demo_controller \<lparr> Name := demo_name, Spec := Some (demo_spec \<lparr> PcieId := None \<rparr>) \<rparr>"
       and volume = stored_controller
       and usubsys = "\<lparr> subsys_Spec = Some \<lparr> Nqn = ''nqn.2022-09.io.spdk:opi3'' \<rparr> \<rparr>"]
  by (simp add: demo_env_def empty_server_def demo_server_def demo_spec_def demo_controller_def
      demo_subsystems_def demo_name_def)

subsection \<open>Atomicity on failure\<close>

lemma sortNvmeControllers_Blob:
  "sortNvmeControllers env (map Blob xs) = Inr (sort_Slice env controllers_less (map Blob xs))"
  by (simp add: sortNvmeControllers_def Blob_def)

lemma Create_atomic: "atomic_on_failure env s (CreateNvmeController env s req)"
  by (auto simp add: atomic_on_failure_def CreateNvmeController_def backend_status_def Let_def
      split: option.splits sum.splits)

lemma Delete_atomic: "atomic_on_failure env s (DeleteNvmeController env s req)"
  by (auto simp add: atomic_on_failure_def DeleteNvmeController_def backend_status_def Let_def
      split: option.splits sum.splits)

lemma Update_atomic: "atomic_on_failure env s (UpdateNvmeController env s req)"
  by (auto simp add: atomic_on_failure_def UpdateNvmeController_def backend_status_def Let_def
      split: option.splits sum.splits)

lemma List_atomic: "atomic_on_failure env s (ListNvmeControllers env s req)"
  by (auto simp add: atomic_on_failure_def ListNvmeControllers_def backend_status_def Let_def
      sortNvmeControllers_Blob LimitPagination_def
      split: option.splits sum.splits prod.splits)

lemma Get_atomic: "atomic_on_failure env s (GetNvmeController env s req)"
  by (auto simp add: atomic_on_failure_def GetNvmeController_def backend_status_def Let_def
      split: option.splits sum.splits)

lemma Stats_atomic: "atomic_on_failure env s (NvmeControllerStats env s req)"
  by (auto simp add: atomic_on_failure_def NvmeControllerStats_def backend_status_def Let_def
      split: option.splits sum.splits)

text \<open>
  C4. Every outcome of Create, Delete, Update, List, Get and Stats is atomic in the sense
  of \<open>atomic_on_failure\<close>: when the operation fails (a validator's error, a missing
  controller or subsystem, a transport error, a non-zero status, also a panic) the server
  state, registry and cursor table alike, is the one it started in; the controller
  registry differs afterwards only if a backend invocation was answered with status
  zero; and a backend answer with a non-zero status turns into \<open>InvalidArgument\<close>.
\<close>

theorem operations_atomic:
  "atomic_on_failure env s (CreateNvmeController env s cr) \<and>
   atomic_on_failure env s (DeleteNvmeController env s dr) \<and>
   atomic_on_failure env s (UpdateNvmeController env s ur) \<and>
   atomic_on_failure env s (ListNvmeControllers env s lr) \<and>
   atomic_on_failure env s (GetNvmeController env s gr) \<and>
   atomic_on_failure env s (NvmeControllerStats env s sr)"
  by (simp only: Create_atomic Delete_atomic Update_atomic List_atomic Get_atomic Stats_atomic
      simp_thms)

theorem operations_atomic_witness:
  "CreateNvmeController failing_env empty_server create_request =
     (Inl (StatusError InvalidArgument ''Could not create CTRL: //storage.opiproject.org/volumes/ctrl0''),
      empty_server,
      [(''mrvl_nvm_subsys_create_ctrlr'',
        CreateCtrlrParams \<lparr> create_Subnqn = ''nqn.2022-09.io.spdk:opi3'', PcieDomainID = 0,
          PfID = 1, VfID = 2, create_CtrlrID = 17, MaxNsq_param = 8, MaxNcq_param = 8, Mqes = 6 \<rparr>)]) \<and>
   backend_status failing_env
     (''mrvl_nvm_subsys_create_ctrlr'',
      CreateCtrlrParams \<lparr> create_Subnqn = ''nqn.2022-09.io.spdk:opi3'', PcieDomainID = 0,
        PfID = 1, VfID = 2, create_CtrlrID = 17, MaxNsq_param = 8, MaxNcq_param = 8, Mqes = 6 \<rparr>) = Some 1 \<and>
   atomic_on_failure failing_env empty_server
     (CreateNvmeController failing_env empty_server create_request) \<and>
   atomic_on_failure demo_env empty_server
     (CreateNvmeController demo_env empty_server create_request) \<and>
   Controllers (fst (snd (CreateNvmeController demo_env empty_server create_request))) \<noteq>
     Controllers empty_server"
proof -
  have failing: "CreateNvmeController failing_env empty_server create_request =
     (Inl (StatusError InvalidArgument ''Could not create CTRL: //storage.opiproject.org/volumes/ctrl0''),
      empty_server,
      [(''mrvl_nvm_subsys_create_ctrlr'',
        CreateCtrlrParams \<lparr> create_Subnqn = ''nqn.2022-09.io.spdk:opi3'', PcieDomainID = 0,
          PfID = 1, VfID = 2, create_CtrlrID = 17, MaxNsq_param = 8, MaxNcq_param = 8, Mqes = 6 \<rparr>)])"
    by (simp add: CreateNvmeController_def create_request_def failing_env_def demo_env_def
        empty_server_def demo_controller_def demo_spec_def demo_subsystems_def
        create_ctrlr_params_def int_of_int32_def Let_def)
  have status: "backend_status failing_env
     (''mrvl_nvm_subsys_create_ctrlr'',
      CreateCtrlrParams \<lparr> create_Subnqn = ''nqn.2022-09.io.spdk:opi3'', PcieDomainID = 0,
        PfID = 1, VfID = 2, create_CtrlrID = 17, MaxNsq_param = 8, MaxNcq_param = 8, Mqes = 6 \<rparr>) = Some 1"
    by (simp add: backend_status_def failing_env_def demo_env_def)
  have written: "Controllers (fst (snd (CreateNvmeController demo_env empty_server create_request))) \<noteq>
     Controllers empty_server"
    by (simp add: CreateNvmeController_def create_request_def demo_env_def
        empty_server_def demo_controller_def demo_spec_def demo_subsystems_def
        create_ctrlr_params_def int_of_int32_def Let_def)
  from failing status written
    operations_atomic [where env = failing_env and s = empty_server and cr = create_request]
    operations_atomic [where env = demo_env and s = empty_server and cr = create_request]
  show ?thesis by simp
qed

subsection \<open>Listing: order and pagination\<close>

lemma id_of_Blob: "id_of (Blob r) = Some (sint (int32_of_int (CtrlrID r)))"
  by (simp add: id_of_def Blob_def spec_with_id_def)

lemma controllers_less_Blob:
  "controllers_less (Blob a) (Blob b) \<longleftrightarrow>
     sint (int32_of_int (CtrlrID a)) < sint (int32_of_int (CtrlrID b))"
  by (simp add: controllers_less_def Blob_def spec_with_id_def word_sless_alt)

text \<open>An element built at line 262 is determined by its controller id.\<close>

lemma Blob_eq_iff: "Blob a = Blob b \<longleftrightarrow> id_of (Blob a) = id_of (Blob b)"
  by (auto simp add: id_of_def Blob_def spec_with_id_def intro: signed_word_eqI)

lemma all_equal_mset_eq:
  assumes "mset ys = mset xs" and "\<And>a b. a \<in> set xs \<Longrightarrow> b \<in> set xs \<Longrightarrow> a = b"
  shows "ys = xs"
proof (cases xs)
  case Nil
  with assms(1) show ?thesis by simp
next
  case (Cons v vs)
  have len: "length ys = length xs"
    using assms(1) by (rule mset_eq_length)
  have sets: "set ys = set xs"
    using assms(1) by (rule mset_eq_setD)
  have "xs = replicate (length xs) v"
    by (rule replicate_eqI) (use Cons assms(2) in auto)
  moreover have "ys = replicate (length xs) v"
    by (rule replicate_eqI) (use Cons assms(2) sets len in auto)
  ultimately show ?thesis by simp
qed

text \<open>
  A permutation cannot reorder the elements that satisfy \<open>P\<close> when any two of them are
  the same value.
\<close>

lemma filter_eq_of_mset:
  assumes "mset ys = mset xs"
    and "\<And>a b. a \<in> set xs \<Longrightarrow> b \<in> set xs \<Longrightarrow> P a \<Longrightarrow> P b \<Longrightarrow> a = b"
  shows "filter P ys = filter P xs"
proof (rule all_equal_mset_eq)
  show "mset (filter P ys) = mset (filter P xs)"
    using assms(1) by (simp add: mset_filter)
  show "\<And>a b. a \<in> set (filter P xs) \<Longrightarrow> b \<in> set (filter P xs) \<Longrightarrow> a = b"
    using assms(2) by simp
qed

lemma sorted_Blobs:
  assumes perm: "mset out = mset (map Blob rs)"
    and ord: "sorted_wrt (\<lambda>a b. \<not> controllers_less b a) out"
  shows "map id_of out = map Some (map (\<lambda>c. the (id_of c)) out) \<and>
         sorted (map (\<lambda>c. the (id_of c)) out)"
proof -
  have sets: "set out = Blob ` set rs"
    using mset_eq_setD [OF perm] by simp
  have some: "map id_of out = map Some (map (\<lambda>c. the (id_of c)) out)"
    using sets by (auto simp add: id_of_Blob)
  have "sorted_wrt (\<lambda>a b. the (id_of a) \<le> the (id_of b)) out"
  proof (rule sorted_wrt_mono_rel [OF _ ord])
    fix a b
    assume "a \<in> set out" and "b \<in> set out" and "\<not> controllers_less b a"
    then show "the (id_of a) \<le> the (id_of b)"
      using sets by (auto simp add: controllers_less_Blob id_of_Blob)
  qed
  then have "sorted (map (\<lambda>c. the (id_of c)) out)"
    by (simp add: sorted_map)
  with some show ?thesis by simp
qed

lemma stable_Blobs:
  assumes perm: "mset out = mset (map Blob rs)"
  shows "filter (\<lambda>c. id_of c = k) out = filter (\<lambda>c. id_of c = k) (map Blob rs)"
proof (rule filter_eq_of_mset [OF perm])
  fix a b
  assume "a \<in> set (map Blob rs)" and "b \<in> set (map Blob rs)" and "id_of a = k" and "id_of b = k"
  then show "a = b"
    by (auto simp add: Blob_eq_iff)
qed

text \<open>What a successful List call has done, read off the definition.\<close>

lemma List_success:
  assumes "ListNvmeControllers env s req = (Inr resp, s', calls)"
  shows "\<exists>p result sz offset.
           calls = [(''mrvl_nvm_subsys_get_ctrlr_list'', GetCtrlrListParams p)] \<and>
           Call_GetCtrlrList env ''mrvl_nvm_subsys_get_ctrlr_list'' p = Inr result \<and>
           list_Status result = 0 \<and>
           ExtractPagination env (list_PageSize req) (list_PageToken req) (Pagination s) = Inr (sz, offset) \<and>
           resp = \<lparr> NvmeControllers =
                      sort_Slice env controllers_less (map Blob (window offset sz (CtrlrIDList result))),
                    NextPageToken = '''' \<rparr> \<and>
           s' = (if sint offset + sint sz < int (length (CtrlrIDList result))
                 then s \<lparr> Pagination := (Pagination s)(uuid_New env \<mapsto> offset + sz) \<rparr>
                 else s)"
  using assms
  by (auto simp add: ListNvmeControllers_def Let_def sortNvmeControllers_Blob LimitPagination_def
      window_def split: option.splits sum.splits prod.splits if_splits)

text \<open>The sorting test double meets the contract of \<^verbatim>\<open>sort.Slice\<close>.\<close>

lemma set_insert_by: "set (insert_by lt x ys) = insert x (set ys)"
  by (induction ys) auto

lemma mset_insert_by: "mset (insert_by lt x ys) = add_mset x (mset ys)"
  by (induction ys) auto

lemma mset_sort_by: "mset (sort_by lt xs) = mset xs"
  by (induction xs) (simp_all add: sort_by_def mset_insert_by)

lemma controllers_less_key:
  "Spec a \<noteq> None \<Longrightarrow> Spec b \<noteq> None \<Longrightarrow>
     controllers_less a b \<longleftrightarrow> the (id_of a) < the (id_of b)"
  by (auto simp add: controllers_less_def id_of_def word_sless_alt)

lemma sorted_insert_by:
  assumes "Spec x \<noteq> None" and "\<forall>c \<in> set ys. Spec c \<noteq> None"
    and "sorted_wrt (\<lambda>a b. \<not> controllers_less b a) ys"
  shows "sorted_wrt (\<lambda>a b. \<not> controllers_less b a) (insert_by controllers_less x ys)"
  using assms
proof (induction ys)
  case Nil
  then show ?case by simp
next
  case (Cons y ys)
  then show ?case
    by (auto simp add: set_insert_by controllers_less_key)
qed

lemma sorted_sort_by:
  "\<forall>c \<in> set xs. Spec c \<noteq> None \<Longrightarrow>
     sorted_wrt (\<lambda>a b. \<not> controllers_less b a) (sort_by controllers_less xs)"
proof (induction xs)
  case Nil
  then show ?case by (simp add: sort_by_def)
next
  case (Cons x xs)
  have "set (sort_by controllers_less xs) = set xs"
    using mset_eq_setD [OF mset_sort_by] .
  with Cons sorted_insert_by [of x "sort_by controllers_less xs"] show ?case
    by (simp add: sort_by_def)
qed

lemma demo_env_contract: "sort_Slice_contract demo_env"
  by (simp add: sort_Slice_contract_def demo_env_def mset_sort_by sorted_sort_by)

text \<open>Two runs of List against the demo backend, with page sizes 4 and 3.\<close>

lemma demo_list_4:
  "ListNvmeControllers demo_env demo_server
     \<lparr> list_Parent = ''subsys0'', list_PageSize = 4, list_PageToken = '''' \<rparr> =
   (Inr \<lparr> NvmeControllers =
           [\<lparr> Name = '''', Spec = Some (spec_with_id 1), Status = None \<rparr>,
            \<lparr> Name = '''', Spec = Some (spec_with_id 1), Status = None \<rparr>,
            \<lparr> Name = '''', Spec = Some (spec_with_id 2), Status = None \<rparr>,
            \<lparr> Name = '''', Spec = Some (spec_with_id 3), Status = None \<rparr>],
          NextPageToken = '''' \<rparr>,
    demo_server,
    [(''mrvl_nvm_subsys_get_ctrlr_list'', GetCtrlrListParams \<lparr> list_Subnqn = ''nqn.2022-09.io.spdk:opi3'' \<rparr>)])"
  by (simp add: ListNvmeControllers_def demo_env_def demo_server_def demo_subsystems_def
      LimitPagination_def Let_def sortNvmeControllers_def Blob_def sort_by_def
      controllers_less_def spec_with_id_def int32_of_int_def word_sless_alt)

lemma demo_list_3:
  "ListNvmeControllers demo_env demo_server
     \<lparr> list_Parent = ''subsys0'', list_PageSize = 3, list_PageToken = '''' \<rparr> =
   (Inr \<lparr> NvmeControllers =
           [\<lparr> Name = '''', Spec = Some (spec_with_id 1), Status = None \<rparr>,
            \<lparr> Name = '''', Spec = Some (spec_with_id 2), Status = None \<rparr>,
            \<lparr> Name = '''', Spec = Some (spec_with_id 3), Status = None \<rparr>],
          NextPageToken = '''' \<rparr>,
    demo_server \<lparr> Pagination := [''token'' \<mapsto> 3] \<rparr>,
    [(''mrvl_nvm_subsys_get_ctrlr_list'', GetCtrlrListParams \<lparr> list_Subnqn = ''nqn.2022-09.io.spdk:opi3'' \<rparr>)])"
  by (simp add: ListNvmeControllers_def demo_env_def demo_server_def demo_subsystems_def
      LimitPagination_def Let_def sortNvmeControllers_def Blob_def sort_by_def
      controllers_less_def spec_with_id_def int32_of_int_def word_sless_alt)

text \<open>
  C2. Whatever routine stands for \<^verbatim>\<open>sort.Slice\<close>, as long as it meets that function's
  contract, and in whatever order the backend lists the identifiers: the controllers of
  a successful List call all carry an id, these ids ascend (as signed 32-bit numbers),
  and for every id the elements carrying it appear as they do in the slice handed to the
  sort, so elements with equal ids keep their relative order. The elements of that slice
  hold nothing but the id, which is why an unstable sort cannot be observed here.
\<close>

theorem list_sorted_stable:
  assumes "sort_Slice_contract env"
    and "ListNvmeControllers env s req = (Inr resp, s', calls)"
  shows "\<exists>p result sz offset ids.
           calls = [(''mrvl_nvm_subsys_get_ctrlr_list'', GetCtrlrListParams p)] \<and>
           Call_GetCtrlrList env ''mrvl_nvm_subsys_get_ctrlr_list'' p = Inr result \<and>
           ExtractPagination env (list_PageSize req) (list_PageToken req) (Pagination s) = Inr (sz, offset) \<and>
           map id_of (NvmeControllers resp) = map Some ids \<and> sorted ids \<and>
           (\<forall>k. filter (\<lambda>c. id_of c = k) (NvmeControllers resp) =
                filter (\<lambda>c. id_of c = k) (map Blob (window offset sz (CtrlrIDList result))))"
proof -
  from List_success [OF assms(2)] obtain p result sz offset where
    calls: "calls = [(''mrvl_nvm_subsys_get_ctrlr_list'', GetCtrlrListParams p)]"
    and reply: "Call_GetCtrlrList env ''mrvl_nvm_subsys_get_ctrlr_list'' p = Inr result"
    and page: "ExtractPagination env (list_PageSize req) (list_PageToken req) (Pagination s) = Inr (sz, offset)"
    and resp: "resp = \<lparr> NvmeControllers =
                 sort_Slice env controllers_less (map Blob (window offset sz (CtrlrIDList result))),
               NextPageToken = '''' \<rparr>"
    by blast
  let ?rs = "window offset sz (CtrlrIDList result)"
  let ?out = "sort_Slice env controllers_less (map Blob ?rs)"
  have perm: "mset ?out = mset (map Blob ?rs)"
    using assms(1) by (simp add: sort_Slice_contract_def)
  have "\<forall>c \<in> set (map Blob ?rs). Spec c \<noteq> None"
    by (simp add: Blob_def)
  then have ord: "sorted_wrt (\<lambda>a b. \<not> controllers_less b a) ?out"
    using assms(1) unfolding sort_Slice_contract_def by blast
  have out: "NvmeControllers resp = ?out"
    by (simp add: resp)
  have ids: "map id_of (NvmeControllers resp) = map Some (map (\<lambda>c. the (id_of c)) ?out)"
    and srt: "sorted (map (\<lambda>c. the (id_of c)) ?out)"
    using sorted_Blobs [OF perm ord] by (simp_all add: out)
  have stable: "\<forall>k. filter (\<lambda>c. id_of c = k) (NvmeControllers resp) =
                   filter (\<lambda>c. id_of c = k) (map Blob ?rs)"
    using stable_Blobs [OF perm] by (simp add: out)
  from calls reply page ids srt stable show ?thesis by blast
qed

theorem list_sorted_stable_witness:
  "sort_Slice_contract demo_env \<and>
   map id_of (NvmeControllers (projr (fst (ListNvmeControllers demo_env demo_server
     \<lparr> list_Parent = ''subsys0'', list_PageSize = 4, list_PageToken = '''' \<rparr>)))) =
     [Some 1, Some 1, Some 2, Some 3]"
  using list_sorted_stable [OF demo_env_contract demo_list_4] demo_env_contract
  by (simp add: demo_list_4 id_of_def spec_with_id_def)

text \<open>
  What List does with the page, as a supporting fact: the controllers of a successful
  call are, up to the order the sort gives them, the elements built from the identifiers
  in the window, and offset + size (Go's \<^verbatim>\<open>int\<close> addition) is recorded in the cursor
  table under the newly drawn token exactly when elements remain beyond the window.
\<close>

lemma List_page:
  assumes "sort_Slice_contract env"
    and "ListNvmeControllers env s req = (Inr resp, s', calls)"
  shows "\<exists>p result sz offset.
           calls = [(''mrvl_nvm_subsys_get_ctrlr_list'', GetCtrlrListParams p)] \<and>
           Call_GetCtrlrList env ''mrvl_nvm_subsys_get_ctrlr_list'' p = Inr result \<and>
           list_Status result = 0 \<and>
           ExtractPagination env (list_PageSize req) (list_PageToken req) (Pagination s) = Inr (sz, offset) \<and>
           mset (NvmeControllers resp) = mset (map Blob (window offset sz (CtrlrIDList result))) \<and>
           s' = (if sint offset + sint sz < int (length (CtrlrIDList result))
                 then s \<lparr> Pagination := (Pagination s)(uuid_New env \<mapsto> offset + sz) \<rparr>
                 else s)"
proof -
  from List_success [OF assms(2)] obtain p result sz offset where
    calls: "calls = [(''mrvl_nvm_subsys_get_ctrlr_list'', GetCtrlrListParams p)]"
    and reply: "Call_GetCtrlrList env ''mrvl_nvm_subsys_get_ctrlr_list'' p = Inr result"
    and ok: "list_Status result = 0"
    and page: "ExtractPagination env (list_PageSize req) (list_PageToken req) (Pagination s) = Inr (sz, offset)"
    and resp: "resp = \<lparr> NvmeControllers =
                 sort_Slice env controllers_less (map Blob (window offset sz (CtrlrIDList result))),
               NextPageToken = '''' \<rparr>"
    and state: "s' = (if sint offset + sint sz < int (length (CtrlrIDList result))
                 then s \<lparr> Pagination := (Pagination s)(uuid_New env \<mapsto> offset + sz) \<rparr>
                 else s)"
    by blast
  have "mset (NvmeControllers resp) = mset (map Blob (window offset sz (CtrlrIDList result)))"
    using assms(1) by (simp add: resp sort_Slice_contract_def)
  with calls reply ok page state show ?thesis by auto
qed

text \<open>
  The response literal of line 265 sets the controllers only: whatever the collaborators
  do, a successful List call returns the empty next-page token, also when it has just
  recorded a cursor.
\<close>

lemma List_token_always_empty:
  assumes "ListNvmeControllers env s req = (Inr resp, s', calls)"
  shows "NextPageToken resp = ''''"
  using List_success [OF assms] by auto

text \<open>
  C7 fails on the code. With the backend listing the four ids 3, 1, 2, 1 and a page of
  three from offset zero, an element remains beyond the window; List draws the token
  \<^verbatim>\<open>token\<close> and records the resume offset 3 under it in the cursor table, yet the
  response carries the empty next-page token, so the caller never learns the token that
  was minted for it.
\<close>

theorem list_drops_next_page_token:
  "ListNvmeControllers demo_env demo_server
     \<lparr> list_Parent = ''subsys0'', list_PageSize = 3, list_PageToken = '''' \<rparr> =
   (Inr \<lparr> NvmeControllers =
           [\<lparr> Name = '''', Spec = Some (spec_with_id 1), Status = None \<rparr>,
            \<lparr> Name = '''', Spec = Some (spec_with_id 2), Status = None \<rparr>,
            \<lparr> Name = '''', Spec = Some (spec_with_id 3), Status = None \<rparr>],
          NextPageToken = '''' \<rparr>,
    demo_server \<lparr> Pagination := [''token'' \<mapsto> 3] \<rparr>,
    [(''mrvl_nvm_subsys_get_ctrlr_list'', GetCtrlrListParams \<lparr> list_Subnqn = ''nqn.2022-09.io.spdk:opi3'' \<rparr>)]) \<and>
   Call_GetCtrlrList demo_env ''mrvl_nvm_subsys_get_ctrlr_list''
       \<lparr> list_Subnqn = ''nqn.2022-09.io.spdk:opi3'' \<rparr> =
     Inr \<lparr> list_Status = 0,
       CtrlrIDList = [\<lparr> CtrlrID = 3 \<rparr>, \<lparr> CtrlrID = 1 \<rparr>, \<lparr> CtrlrID = 2 \<rparr>, \<lparr> CtrlrID = 1 \<rparr>] \<rparr> \<and>
   snd (LimitPagination [\<lparr> CtrlrID = 3 \<rparr>, \<lparr> CtrlrID = 1 \<rparr>, \<lparr> CtrlrID = 2 \<rparr>, \<lparr> CtrlrID = 1 \<rparr>] 0 3) \<and>
   uuid_New demo_env = ''token'' \<and>
   Pagination demo_server ''token'' = None"
  by (simp add: demo_list_3) (simp add: demo_env_def demo_server_def LimitPagination_def)


end
